theory Spec2Isabelle
  imports Main "HOL-Library.Word" "HOL-Library.Monad_Syntax" "HOL-Library.Signed_Division"
begin

unbundle bit_operations_syntax

section \<open>Data model of gralloc_drm.cpp and gralloc.cpp\<close>

text \<open>
  Pointers are addresses into explicit stores. A \<open>buffer_handle_t\<close> is the address of a
  native handle, a \<open>bo_ptr\<close> the address of a \<open>struct gralloc_drm_bo_t\<close>; a C pointer that
  may be NULL is an \<open>option\<close>. Addresses handed out by the backend's \<open>map\<close> are integers.
\<close>

type_synonym buffer_handle_t = nat
type_synonym bo_ptr = nat
type_synonym addr = int

text \<open>
  Modelled from the spec: the declaration of the handle struct (android/gralloc_handle.h,
  gralloc_drm_handle.h), which is not among the sources. The fields are those the two
  files read: \<open>usage\<close>, \<open>format\<close>, \<open>stride\<close>, \<open>height\<close>, \<open>name\<close> and \<open>prime_fd\<close> (and \<open>width\<close>,
  which \<open>gralloc_handle_create\<close> receives). A handle is not changed by the two files after
  the backend's \<open>alloc\<close> has filled it in.
\<close>

record gralloc_drm_handle_t =
  h_width :: int
  h_height :: int
  h_format :: int
  h_usage :: "32 word"
  h_stride :: int
  h_name :: int
  h_prime_fd :: int

text \<open>
  Calls that leave the two files (the backend behind \<open>drm->drv\<close>, the KMS helpers, the
  device creation) are recorded in a chronological log, so that "no backend call" and
  "exactly one call" are statements about the log.
\<close>

datatype event =
    EvCreate
  | EvAlloc buffer_handle_t
  | EvFree bo_ptr
  | EvRmFb bo_ptr
  | EvAddFb bo_ptr
  | EvMap bo_ptr int int int int bool
  | EvUnmap bo_ptr

text \<open>
  What the backend's \<open>alloc\<close> leaves in the fields of a new bo that the callers in
  gralloc_drm.cpp do not assign afterwards.
\<close>

record drv_bo_fields =
  drv_fb_id :: int
  drv_lock_count :: int
  drv_locked_for :: "32 word"

text \<open>
  The backend (\<open>struct gralloc_drm_drv_t\<close>) is not part of the two files; it is a parameter.
  Each entry may depend on the calls made so far. \<open>drv_alloc\<close> yields \<open>None\<close> for a NULL
  result and otherwise the backend's part of the new bo together with the handle as the
  backend leaves it (it fills in stride and name). \<open>drv_map\<close> yields the error code and
  what it stored through \<open>addr\<close> (\<open>None\<close>: nothing stored). The backend's \<open>map\<close> and
  \<open>unmap\<close> leave the fields of the bo that gralloc_drm.cpp maintains (\<open>refcount\<close>,
  \<open>lock_count\<close>, \<open>locked_for\<close>) alone.
\<close>

record gralloc_drm_drv_t =
  drv_alloc :: "event list \<Rightarrow> gralloc_drm_handle_t \<Rightarrow> (drv_bo_fields \<times> gralloc_drm_handle_t) option"
  drv_map :: "event list \<Rightarrow> bo_ptr \<Rightarrow> int \<Rightarrow> int \<Rightarrow> int \<Rightarrow> int \<Rightarrow> bool \<Rightarrow> int \<times> addr option"

record gralloc_drm_t =
  fd :: int
  drv :: gralloc_drm_drv_t

text \<open>
  Modelled from the spec: the declaration of \<open>struct gralloc_drm_bo_t\<close>
  (gralloc_drm_priv.h), which is not among the sources. The fields are those the two
  files use; \<open>refcount\<close> and \<open>lock_count\<close> are integers as in the specification (the
  code decrements \<open>refcount\<close> without a check, so it is not a \<open>nat\<close>), the usage mask
  \<open>locked_for\<close> is a 32-bit word as the parameter \<open>uint32_t usage\<close> of
  \<open>gralloc_drm_bo_lock\<close>. \<open>bo_drm\<close> is the device object that \<open>bo->drm\<close> points to; the
  device object is not changed after its creation, so the bo keeps a copy.
\<close>

record gralloc_drm_bo_t =
  bo_drm :: gralloc_drm_t
  bo_handle :: buffer_handle_t
  imported :: bool
  fb_id :: int
  lock_count :: int
  locked_for :: "32 word"
  refcount :: int

text \<open>
  Everything outside the process that the code consults: \<open>/proc/fb\<close>, libdrm, the
  compiled-in backends, the KMS helpers and the helpers of gralloc_drm.h whose bodies are
  not among the sources. \<open>proc_fb\<close> is the driver name read by \<open>fscanf\<close> when both items
  were read. \<open>drmGetVersion\<close> is \<open>None\<close> for a NULL version, \<open>Some None\<close> for a version
  without a name. \<open>drv_create_for\<close> stands for the chain of compiled-in backend
  constructors. \<open>uninit_drv\<close> is the content of the \<open>drv\<close> field of a device object
  obtained from \<open>new\<close>, which \<open>gralloc_drm_create\<close> reads without having assigned it when
  no device was opened.
\<close>

record world =
  proc_fb :: "string option"
  drmOpen :: "string \<Rightarrow> int"
  drmGetVersion :: "int \<Rightarrow> string option option"
  drv_create_for :: "string \<Rightarrow> int \<Rightarrow> gralloc_drm_drv_t option"
  uninit_drv :: "gralloc_drm_drv_t option"
  gralloc_drm_init_kms :: "gralloc_drm_t \<Rightarrow> int"
  gralloc_drm_get_bpp :: "int \<Rightarrow> int"
  gralloc_handle_create :: "int \<Rightarrow> int \<Rightarrow> int \<Rightarrow> 32 word \<Rightarrow> gralloc_drm_handle_t option"
  gralloc_drm_bo_need_fb :: "gralloc_drm_bo_t \<Rightarrow> gralloc_drm_handle_t \<Rightarrow> bool"
  gralloc_drm_bo_add_fb :: "gralloc_drm_bo_t \<Rightarrow> gralloc_drm_handle_t \<Rightarrow> int \<times> int"

text \<open>
  The state of the process: \<open>dmod_drm\<close> is \<open>dmod->drm\<close> of the single module object,
  \<open>drm_bo_handle_map\<close> the static map of gralloc_drm.cpp (a stored pointer may be NULL),
  \<open>bos\<close> the live bo structs, \<open>hmem\<close> what \<open>gralloc_handle\<close> returns for a native handle
  (\<open>None\<close> for NULL). The mutexes are left out: the model is sequential.
\<close>

record gralloc_state =
  dmod_drm :: "gralloc_drm_t option"
  drm_bo_handle_map :: "buffer_handle_t \<rightharpoonup> bo_ptr option"
  bos :: "bo_ptr \<rightharpoonup> gralloc_drm_bo_t"
  hmem :: "buffer_handle_t \<rightharpoonup> gralloc_drm_handle_t"
  next_bo :: nat
  next_handle :: nat
  events :: "event list"


subsection \<open>Constants of the Android headers\<close>

text \<open>
  The error numbers of errno.h, the usage flags of hardware/gralloc.h and the pixel format
  of system/graphics.h that the two files name. \<open>GRALLOC_USAGE_SW_READ_OFTEN\<close> is a
  two-bit value: it is \<open>GRALLOC_USAGE_SW_READ_RARELY\<close> (0x2) with the bit 0x1 added.
\<close>

definition EINVAL :: int where
  "EINVAL = 22"

definition ENOMEM :: int where
  "ENOMEM = 12"

definition GRALLOC_USAGE_SW_READ_OFTEN :: "32 word" where
  "GRALLOC_USAGE_SW_READ_OFTEN = 0x3"

definition GRALLOC_USAGE_SW_READ_MASK :: "32 word" where
  "GRALLOC_USAGE_SW_READ_MASK = 0xF"

definition GRALLOC_USAGE_SW_WRITE_MASK :: "32 word" where
  "GRALLOC_USAGE_SW_WRITE_MASK = 0xF0"

definition GRALLOC_USAGE_HW_TEXTURE :: "32 word" where
  "GRALLOC_USAGE_HW_TEXTURE = 0x100"

definition GRALLOC_USAGE_HW_FB :: "32 word" where
  "GRALLOC_USAGE_HW_FB = 0x1000"

definition GRALLOC_USAGE_HW_VIDEO_ENCODER :: "32 word" where
  "GRALLOC_USAGE_HW_VIDEO_ENCODER = 0x10000"


section \<open>gralloc_drm.cpp\<close>

text \<open>
  A result \<open>None\<close> of an operation is undefined behaviour of the C++ code: a member
  access through a NULL pointer or through a pointer to a bo or handle that has been
  freed. Error codes are ordinary results.
\<close>

definition init_drv_from_fd :: "world \<Rightarrow> int \<Rightarrow> gralloc_drm_drv_t option" where
  "init_drv_from_fd wd f =
     (case drmGetVersion wd f of
        None \<Rightarrow> None
      | Some None \<Rightarrow> None
      | Some (Some name) \<Rightarrow> drv_create_for wd name f)"

definition fbdrv_map :: "(string \<times> string) list" where
  "fbdrv_map =
     [(''amdgpudrmfb'', ''amdgpu''),
      (''inteldrmfb'', ''i915''),
      (''nouveaufb'', ''nouveau''),
      (''radeondrmfb'', ''radeon''),
      (''svgadrmfb'', ''vmwgfx''),
      (''virtiodrmfb'', ''virtio_gpu'')]"

text \<open>
  \<open>gralloc_drm_create\<close>. The loop over \<open>fbdrv_map\<close> opens the device of the first entry
  whose name is the one read from \<open>/proc/fb\<close>; \<open>fd\<close> stays \<open>-1\<close> when there is none. The
  result is NULL when \<open>/proc/fb\<close> could not be read or \<open>drm->drv\<close> is NULL.
\<close>

definition gralloc_drm_create :: "world \<Rightarrow> gralloc_drm_t option" where
  "gralloc_drm_create wd =
     (case proc_fb wd of
        None \<Rightarrow> None
      | Some buf \<Rightarrow>
          (let f = (case map_of fbdrv_map buf of
                      None \<Rightarrow> - 1
                    | Some name \<Rightarrow> drmOpen wd name);
               d = (if f < 0 then uninit_drv wd else init_drv_from_fd wd f)
           in case d of
                None \<Rightarrow> None
              | Some dr \<Rightarrow> Some \<lparr>fd = f, drv = dr\<rparr>))"

text \<open>
  \<open>validate_handle\<close>. A handle that the map knows yields the stored pointer. Otherwise,
  with a device, a well-formed handle with a GEM name or a prime fd is imported: the
  backend allocates a bo, which is returned with \<open>refcount = 1\<close> and \<open>imported = 1\<close>. The
  function stores nothing in \<open>drm_bo_handle_map\<close>. When the backend's \<open>alloc\<close> returns
  NULL, the assignment \<open>bo->drm = drm\<close> goes through a NULL pointer.
\<close>

definition validate_handle ::
  "buffer_handle_t \<Rightarrow> gralloc_drm_t option \<Rightarrow> gralloc_state \<Rightarrow> (bo_ptr option \<times> gralloc_state) option" where
  "validate_handle hp drm s =
     (case drm_bo_handle_map s hp of
        Some bo \<Rightarrow> Some (bo, s)
      | None \<Rightarrow>
          (case drm of
             None \<Rightarrow> Some (None, s)
           | Some d \<Rightarrow>
               (case hmem s hp of
                  None \<Rightarrow> Some (None, s)
                | Some handle \<Rightarrow>
                    if h_name handle \<noteq> 0 \<or> 0 \<le> h_prime_fd handle
                    then
                      (case drv_alloc (drv d) (events s) handle of
                         None \<Rightarrow> None
                       | Some (f, handle') \<Rightarrow>
                           Some (Some (next_bo s),
                             s\<lparr>bos := (bos s)(next_bo s \<mapsto>
                                     \<lparr>bo_drm = d, bo_handle = hp, imported = True,
                                      fb_id = drv_fb_id f, lock_count = drv_lock_count f,
                                      locked_for = drv_locked_for f, refcount = 1\<rparr>),
                               hmem := (hmem s)(hp \<mapsto> handle'),
                               next_bo := Suc (next_bo s),
                               events := events s @ [EvAlloc hp]\<rparr>))
                    else Some (None, s))))"

definition gralloc_drm_handle_register ::
  "buffer_handle_t \<Rightarrow> gralloc_drm_t option \<Rightarrow> gralloc_state \<Rightarrow> (int \<times> gralloc_state) option" where
  "gralloc_drm_handle_register hp drm s =
     (case validate_handle hp drm s of
        None \<Rightarrow> None
      | Some (None, s1) \<Rightarrow> Some (- EINVAL, s1)
      | Some (Some p, s1) \<Rightarrow>
          (case bos s1 p of
             None \<Rightarrow> None
           | Some b \<Rightarrow> Some (0, s1\<lparr>bos := (bos s1)(p \<mapsto> b\<lparr>refcount := refcount b + 1\<rparr>)\<rparr>)))"

text \<open>
  \<open>gralloc_drm_bo_destroy\<close>. \<open>gralloc_drm_bo_rm_fb\<close> and the backend's \<open>free\<close> are calls that
  leave the file. \<open>free\<close> releases the bo struct: afterwards the address is no longer in
  \<open>bos\<close>, and an access through it is undefined. The handle is deleted with the bo unless
  the bo was imported.
\<close>

definition gralloc_drm_bo_destroy :: "bo_ptr \<Rightarrow> gralloc_state \<Rightarrow> gralloc_state option" where
  "gralloc_drm_bo_destroy p s =
     (case bos s p of
        None \<Rightarrow> None
      | Some b \<Rightarrow>
          if refcount b \<noteq> 0 then Some s
          else Some (s\<lparr>bos := (bos s)(p := None),
                       hmem := (if imported b then hmem s else (hmem s)(bo_handle b := None)),
                       events := events s @ [EvRmFb p, EvFree p]\<rparr>))"

definition gralloc_drm_bo_decref :: "bo_ptr \<Rightarrow> gralloc_state \<Rightarrow> gralloc_state option" where
  "gralloc_drm_bo_decref p s =
     (case bos s p of
        None \<Rightarrow> None
      | Some b \<Rightarrow>
          (let s1 = s\<lparr>bos := (bos s)(p \<mapsto> b\<lparr>refcount := refcount b - 1\<rparr>)\<rparr>
           in if refcount b - 1 = 0 then gralloc_drm_bo_destroy p s1 else Some s1))"

text \<open>
  \<open>gralloc_drm_handle_unregister\<close> reads \<open>bo->imported\<close> after the first
  \<open>gralloc_drm_bo_decref\<close>, that is, possibly after the bo has been destroyed.
\<close>

definition gralloc_drm_handle_unregister ::
  "buffer_handle_t \<Rightarrow> gralloc_state \<Rightarrow> (int \<times> gralloc_state) option" where
  "gralloc_drm_handle_unregister hp s =
     (case validate_handle hp None s of
        None \<Rightarrow> None
      | Some (None, s1) \<Rightarrow> Some (- EINVAL, s1)
      | Some (Some p, s1) \<Rightarrow>
          (case gralloc_drm_bo_decref p s1 of
             None \<Rightarrow> None
           | Some s2 \<Rightarrow>
               (case bos s2 p of
                  None \<Rightarrow> None
                | Some b \<Rightarrow>
                    if imported b
                    then (case gralloc_drm_bo_decref p s2 of
                            None \<Rightarrow> None
                          | Some s3 \<Rightarrow> Some (0, s3))
                    else Some (0, s2))))"

definition gralloc_drm_bo_create ::
  "world \<Rightarrow> gralloc_drm_t option \<Rightarrow> int \<Rightarrow> int \<Rightarrow> int \<Rightarrow> 32 word \<Rightarrow> gralloc_state
     \<Rightarrow> (bo_ptr option \<times> gralloc_state) option" where
  "gralloc_drm_bo_create wd drm width height format usage s =
     (case gralloc_handle_create wd width height format usage of
        None \<Rightarrow> Some (None, s)
      | Some handle \<Rightarrow>
          (case drm of
             None \<Rightarrow> None
           | Some d \<Rightarrow>
               (case drv_alloc (drv d) (events s) handle of
                  None \<Rightarrow> Some (None, s\<lparr>events := events s @ [EvAlloc (next_handle s)]\<rparr>)
                | Some (f, handle') \<Rightarrow>
                    Some (Some (next_bo s),
                      s\<lparr>bos := (bos s)(next_bo s \<mapsto>
                              \<lparr>bo_drm = d, bo_handle = next_handle s, imported = False,
                               fb_id = 0, lock_count = drv_lock_count f,
                               locked_for = drv_locked_for f, refcount = 1\<rparr>),
                        hmem := (hmem s)(next_handle s \<mapsto> handle'),
                        next_bo := Suc (next_bo s),
                        next_handle := Suc (next_handle s),
                        events := events s @ [EvAlloc (next_handle s)]\<rparr>))))"

definition gralloc_drm_bo_from_handle ::
  "buffer_handle_t \<Rightarrow> gralloc_state \<Rightarrow> (bo_ptr option \<times> gralloc_state) option" where
  "gralloc_drm_bo_from_handle hp s = validate_handle hp None s"

definition gralloc_drm_bo_get_handle ::
  "bo_ptr \<Rightarrow> gralloc_state \<Rightarrow> (buffer_handle_t \<times> int) option" where
  "gralloc_drm_bo_get_handle p s =
     (case bos s p of
        None \<Rightarrow> None
      | Some b \<Rightarrow>
          (case hmem s (bo_handle b) of
             None \<Rightarrow> None
           | Some handle \<Rightarrow> Some (bo_handle b, h_stride handle)))"

text \<open>
  \<open>gralloc_drm_bo_lock\<close> (the same text in both files). The result is the return code and
  what was stored through \<open>addr\<close>. The two nested tests on the declared usage
  \<open>bo->handle->usage\<close> are one conjunction here; the local \<open>usage'\<close> is \<open>usage\<close> after
  \<open>usage |= bo->locked_for\<close>.
\<close>

definition gralloc_drm_bo_lock ::
  "bo_ptr \<Rightarrow> 32 word \<Rightarrow> int \<Rightarrow> int \<Rightarrow> int \<Rightarrow> int \<Rightarrow> gralloc_state
     \<Rightarrow> ((int \<times> addr option) \<times> gralloc_state) option" where
  "gralloc_drm_bo_lock p usage x0 y0 w0 h0 s =
     (case bos s p of
        None \<Rightarrow> None
      | Some b \<Rightarrow>
          (case hmem s (bo_handle b) of
             None \<Rightarrow> None
           | Some handle \<Rightarrow>
               if (h_usage handle AND usage) \<noteq> usage \<and>
                  h_usage handle AND
                    (GRALLOC_USAGE_SW_READ_OFTEN OR GRALLOC_USAGE_HW_FB OR
                     GRALLOC_USAGE_HW_TEXTURE OR GRALLOC_USAGE_HW_VIDEO_ENCODER) = 0
               then Some ((- EINVAL, None), s)
               else if lock_count b \<noteq> 0 \<and> (locked_for b AND usage) \<noteq> usage
               then Some ((- EINVAL, None), s)
               else
                 (let usage' = usage OR locked_for b
                  in if usage' AND (GRALLOC_USAGE_SW_WRITE_MASK OR GRALLOC_USAGE_SW_READ_MASK) \<noteq> 0
                     then
                       (let write = (usage' AND GRALLOC_USAGE_SW_WRITE_MASK \<noteq> 0);
                            r = drv_map (drv (bo_drm b)) (events s) p x0 y0 w0 h0 write;
                            s1 = s\<lparr>events := events s @ [EvMap p x0 y0 w0 h0 write]\<rparr>
                        in if fst r \<noteq> 0 then Some ((fst r, snd r), s1)
                           else Some ((0, snd r),
                                  s1\<lparr>bos := (bos s1)(p \<mapsto>
                                     b\<lparr>lock_count := lock_count b + 1,
                                       locked_for := locked_for b OR usage'\<rparr>)\<rparr>))
                     else Some ((0, None),
                            s\<lparr>bos := (bos s)(p \<mapsto>
                               b\<lparr>lock_count := lock_count b + 1,
                                 locked_for := locked_for b OR usage'\<rparr>)\<rparr>))))"

definition gralloc_drm_bo_unlock :: "bo_ptr \<Rightarrow> gralloc_state \<Rightarrow> gralloc_state option" where
  "gralloc_drm_bo_unlock p s =
     (case bos s p of
        None \<Rightarrow> None
      | Some b \<Rightarrow>
          (let mapped = locked_for b AND (GRALLOC_USAGE_SW_WRITE_MASK OR GRALLOC_USAGE_SW_READ_MASK)
           in if lock_count b = 0 then Some s
              else
                (let s1 = (if mapped \<noteq> 0 then s\<lparr>events := events s @ [EvUnmap p]\<rparr> else s)
                 in Some (s1\<lparr>bos := (bos s1)(p \<mapsto>
                      b\<lparr>lock_count := lock_count b - 1,
                        locked_for := (if lock_count b - 1 = 0 then 0 else locked_for b)\<rparr>)\<rparr>))))"

section \<open>gralloc.cpp\<close>

text \<open>
  \<open>drm_init\<close>. With \<open>dmod->drm\<close> set, \<open>err\<close> is still 0 at the test of \<open>kms\<close>. With
  \<open>dmod->drm\<close> NULL, \<open>gralloc_drm_create\<close> is called and its result stored; \<open>err\<close> is
  \<open>-EINVAL\<close> when the result is NULL, and the test of \<open>kms\<close> follows otherwise.
\<close>

definition drm_init :: "world \<Rightarrow> bool \<Rightarrow> gralloc_state \<Rightarrow> int \<times> gralloc_state" where
  "drm_init wd kms s =
     (case dmod_drm s of
        Some d \<Rightarrow> (if kms then gralloc_drm_init_kms wd d else 0, s)
      | None \<Rightarrow>
          (case gralloc_drm_create wd of
             None \<Rightarrow> (- EINVAL, s\<lparr>events := events s @ [EvCreate]\<rparr>)
           | Some d \<Rightarrow>
               (if kms then gralloc_drm_init_kms wd d else 0,
                s\<lparr>dmod_drm := Some d, events := events s @ [EvCreate]\<rparr>)))"

definition drm_mod_register_buffer ::
  "world \<Rightarrow> buffer_handle_t \<Rightarrow> gralloc_state \<Rightarrow> (int \<times> gralloc_state) option" where
  "drm_mod_register_buffer wd hp s =
     (case drm_init wd False s of
        (err, s1) \<Rightarrow>
          if err \<noteq> 0 then Some (err, s1)
          else gralloc_drm_handle_register hp (dmod_drm s1) s1)"

definition drm_mod_unregister_buffer ::
  "buffer_handle_t \<Rightarrow> gralloc_state \<Rightarrow> (int \<times> gralloc_state) option" where
  "drm_mod_unregister_buffer hp s = gralloc_drm_handle_unregister hp s"

definition drm_mod_lock ::
  "buffer_handle_t \<Rightarrow> 32 word \<Rightarrow> int \<Rightarrow> int \<Rightarrow> int \<Rightarrow> int \<Rightarrow> gralloc_state
     \<Rightarrow> ((int \<times> addr option) \<times> gralloc_state) option" where
  "drm_mod_lock hp usage x0 y0 w0 h0 s =
     (case gralloc_drm_bo_from_handle hp s of
        None \<Rightarrow> None
      | Some (None, s1) \<Rightarrow> Some ((- EINVAL, None), s1)
      | Some (Some p, s1) \<Rightarrow> gralloc_drm_bo_lock p usage x0 y0 w0 h0 s1)"



definition drm_mod_unlock ::
  "buffer_handle_t \<Rightarrow> gralloc_state \<Rightarrow> (int \<times> gralloc_state) option" where
  "drm_mod_unlock hp s =
     (case gralloc_drm_bo_from_handle hp s of
        None \<Rightarrow> None
      | Some (None, s1) \<Rightarrow> Some (- EINVAL, s1)
      | Some (Some p, s1) \<Rightarrow>
          (case gralloc_drm_bo_unlock p s1 of
             None \<Rightarrow> None
           | Some s2 \<Rightarrow> Some (0, s2)))"

definition drm_mod_free_gpu0 ::
  "buffer_handle_t \<Rightarrow> gralloc_state \<Rightarrow> (int \<times> gralloc_state) option" where
  "drm_mod_free_gpu0 hp s =
     (case gralloc_drm_bo_from_handle hp s of
        None \<Rightarrow> None
      | Some (None, s1) \<Rightarrow> Some (- EINVAL, s1)
      | Some (Some p, s1) \<Rightarrow>
          (case gralloc_drm_bo_decref p s1 of
             None \<Rightarrow> None
           | Some s2 \<Rightarrow> Some (0, s2)))"

text \<open>
  \<open>drm_mod_alloc_gpu0\<close>. The result is the return code and, when they were written, the
  handle and the stride in pixels. C's \<open>/=\<close> truncates towards zero (\<open>sdiv\<close>).
\<close>

definition drm_mod_alloc_gpu0 ::
  "world \<Rightarrow> int \<Rightarrow> int \<Rightarrow> int \<Rightarrow> 32 word \<Rightarrow> gralloc_state
     \<Rightarrow> ((int \<times> (buffer_handle_t \<times> int) option) \<times> gralloc_state) option" where
  "drm_mod_alloc_gpu0 wd w0 h0 format usage s =
     (let bpp = gralloc_drm_get_bpp wd format
      in if bpp = 0 then Some ((- EINVAL, None), s)
         else
           (case gralloc_drm_bo_create wd (dmod_drm s) w0 h0 format usage s of
              None \<Rightarrow> None
            | Some (None, s1) \<Rightarrow> Some ((- ENOMEM, None), s1)
            | Some (Some p, s1) \<Rightarrow>
                (case bos s1 p of
                   None \<Rightarrow> None
                 | Some b \<Rightarrow>
                     (case hmem s1 (bo_handle b) of
                        None \<Rightarrow> None
                      | Some handle \<Rightarrow>
                          if gralloc_drm_bo_need_fb wd b handle \<and>
                             fst (gralloc_drm_bo_add_fb wd b handle) \<noteq> 0
                          then
                            (case gralloc_drm_bo_decref p
                                    (s1\<lparr>events := events s1 @ [EvAddFb p]\<rparr>) of
                               None \<Rightarrow> None
                             | Some s2 \<Rightarrow>
                                 Some ((fst (gralloc_drm_bo_add_fb wd b handle), None), s2))
                          else
                            (let s2 =
                                   (if gralloc_drm_bo_need_fb wd b handle
                                    then s1\<lparr>bos := (bos s1)(p \<mapsto>
                                              b\<lparr>fb_id := snd (gralloc_drm_bo_add_fb wd b handle)\<rparr>),
                                            events := events s1 @ [EvAddFb p]\<rparr>
                                    else s1)
                             in case gralloc_drm_bo_get_handle p s2 of
                                  None \<Rightarrow> None
                                | Some (hp, stride) \<Rightarrow>
                                    Some ((0, Some (hp, stride sdiv bpp)), s2))))))"

section \<open>Concrete devices, handles and states\<close>

text \<open>
  A backend whose \<open>alloc\<close> always succeeds (zero-filled bo, stride of four bytes per
  pixel) and whose \<open>map\<close> always succeeds with the address 4096, and the same backend with
  a \<open>map\<close> that fails with \<open>-ENOMEM\<close>.
\<close>

definition ex_drv :: gralloc_drm_drv_t where
  "ex_drv =
     \<lparr>drv_alloc = (\<lambda>evs handle.
        Some (\<lparr>drv_fb_id = 0, drv_lock_count = 0, drv_locked_for = 0\<rparr>,
              handle\<lparr>h_stride := 4 * h_width handle\<rparr>)),
      drv_map = (\<lambda>evs p x0 y0 w0 h0 write. (0, Some 4096))\<rparr>"

definition ex_drv_nomap :: gralloc_drm_drv_t where
  "ex_drv_nomap = ex_drv\<lparr>drv_map := (\<lambda>evs p x0 y0 w0 h0 write. (- 12, None))\<rparr>"

text \<open>A 64 by 64 handle with stride 64, GEM name 1 and no prime fd.\<close>

definition ex_handle :: "32 word \<Rightarrow> int \<Rightarrow> gralloc_drm_handle_t" where
  "ex_handle usage format =
     \<lparr>h_width = 64, h_height = 64, h_format = format, h_usage = usage,
      h_stride = 64, h_name = 1, h_prime_fd = - 1\<rparr>"

definition ex_bo :: "gralloc_drm_drv_t \<Rightarrow> int \<Rightarrow> 32 word \<Rightarrow> int \<Rightarrow> bool \<Rightarrow> gralloc_drm_bo_t" where
  "ex_bo d lc lf rc imp =
     \<lparr>bo_drm = \<lparr>fd = 3, drv = d\<rparr>, bo_handle = 7, imported = imp, fb_id = 0,
      lock_count = lc, locked_for = lf, refcount = rc\<rparr>"

text \<open>
  \<open>ex_init\<close>: a process with a ready device that has received the native handle 7 and has
  no bo yet. \<open>ex_unready\<close>: the same before the device was created. \<open>ex_state handle b\<close>:
  a process whose map sends the native handle 7 to the bo \<open>b\<close> at address 0.
\<close>

definition ex_init :: gralloc_state where
  "ex_init =
     \<lparr>dmod_drm = Some \<lparr>fd = 3, drv = ex_drv\<rparr>, drm_bo_handle_map = Map.empty,
      bos = Map.empty, hmem = [7 \<mapsto> ex_handle 0x30 1],
      next_bo = 0, next_handle = 8, events = []\<rparr>"

definition ex_unready :: gralloc_state where
  "ex_unready = ex_init\<lparr>dmod_drm := None\<rparr>"

definition ex_state :: "gralloc_drm_handle_t \<Rightarrow> gralloc_drm_bo_t \<Rightarrow> gralloc_state" where
  "ex_state handle b =
     \<lparr>dmod_drm = Some (bo_drm b), drm_bo_handle_map = [7 \<mapsto> Some 0],
      bos = [0 \<mapsto> b], hmem = [7 \<mapsto> handle],
      next_bo = 1, next_handle = 8, events = []\<rparr>"

text \<open>
  An environment in which \<open>/proc/fb\<close> yields the given driver name (or cannot be read),
  every device opens as fd 3 with an i915 kernel driver, and only format 1 has a known
  size of four bytes per pixel.
\<close>

definition ex_world :: "string option \<Rightarrow> world" where
  "ex_world fb =
     \<lparr>proc_fb = fb, drmOpen = (\<lambda>name. 3), drmGetVersion = (\<lambda>f. Some (Some ''i915'')),
      drv_create_for = (\<lambda>name f. Some ex_drv), uninit_drv = None,
      gralloc_drm_init_kms = (\<lambda>d. 0),
      gralloc_drm_get_bpp = (\<lambda>f. if f = 1 then 4 else 0),
      gralloc_handle_create = (\<lambda>w0 h0 f u.
        Some \<lparr>h_width = w0, h_height = h0, h_format = f, h_usage = u,
              h_stride = 0, h_name = 0, h_prime_fd = - 1\<rparr>),
      gralloc_drm_bo_need_fb = (\<lambda>b handle. False),
      gralloc_drm_bo_add_fb = (\<lambda>b handle. (0, 0))\<rparr>"

section \<open>Sequences of register and unregister calls\<close>

datatype reg_op = Register | Unregister

text \<open>
  \<open>run_ops hp drm ops s\<close> makes the calls \<open>ops\<close> on the one handle \<open>hp\<close> in order and
  collects their return codes.
\<close>

fun run_ops ::
  "buffer_handle_t \<Rightarrow> gralloc_drm_t option \<Rightarrow> reg_op list \<Rightarrow> gralloc_state
     \<Rightarrow> (int list \<times> gralloc_state) option" where
  "run_ops hp drm [] s = Some ([], s)"
| "run_ops hp drm (Register # ops) s =
     (case gralloc_drm_handle_register hp drm s of
        None \<Rightarrow> None
      | Some (r, s1) \<Rightarrow>
          (case run_ops hp drm ops s1 of
             None \<Rightarrow> None
           | Some (rs, s2) \<Rightarrow> Some (r # rs, s2)))"
| "run_ops hp drm (Unregister # ops) s =
     (case gralloc_drm_handle_unregister hp s of
        None \<Rightarrow> None
      | Some (r, s1) \<Rightarrow>
          (case run_ops hp drm ops s1 of
             None \<Rightarrow> None
           | Some (rs, s2) \<Rightarrow> Some (r # rs, s2)))"

text \<open>
  The reference count that the specification's formula predicts after a sequence with
  \<open>found\<close> register calls that found an existing entry and \<open>unreg\<close> unregister calls.
\<close>

definition spec_refcount :: "nat \<Rightarrow> nat \<Rightarrow> int" where
  "spec_refcount found unreg = 1 + int found - int unreg"

text \<open>The numbers of register and of unregister calls in a sequence.\<close>

fun registers :: "reg_op list \<Rightarrow> nat" where
  "registers [] = 0"
| "registers (Register # ops) = Suc (registers ops)"
| "registers (Unregister # ops) = registers ops"

fun unregisters :: "reg_op list \<Rightarrow> nat" where
  "unregisters [] = 0"
| "unregisters (Register # ops) = unregisters ops"
| "unregisters (Unregister # ops) = Suc (unregisters ops)"

text \<open>
  \<open>stays_live k r ops\<close>: starting from the reference count \<open>r\<close>, with each register adding
  1 and each unregister taking \<open>k\<close>, the count is above 0 after every call of \<open>ops\<close>.
\<close>

fun stays_live :: "int \<Rightarrow> int \<Rightarrow> reg_op list \<Rightarrow> bool" where
  "stays_live k r [] = True"
| "stays_live k r (Register # ops) = stays_live k (r + 1) ops"
| "stays_live k r (Unregister # ops) = (k < r \<and> stays_live k (r - k) ops)"

section \<open>Auxiliary facts\<close>

lemmas ex_defs = ex_state_def ex_handle_def ex_bo_def ex_drv_def ex_drv_nomap_def

lemmas usage_defs =
  GRALLOC_USAGE_SW_READ_OFTEN_def GRALLOC_USAGE_HW_FB_def GRALLOC_USAGE_HW_TEXTURE_def
  GRALLOC_USAGE_HW_VIDEO_ENCODER_def GRALLOC_USAGE_SW_WRITE_MASK_def
  GRALLOC_USAGE_SW_READ_MASK_def

lemma validate_handle_check_only:
  "drm_bo_handle_map s hp = None \<Longrightarrow> validate_handle hp None s = Some (None, s)"
  by (simp add: validate_handle_def)

lemma validate_handle_found:
  "drm_bo_handle_map s hp = Some bo \<Longrightarrow> validate_handle hp drm s = Some (bo, s)"
  by (simp add: validate_handle_def)

text \<open>
  No function that makes a bo stores it in \<open>drm_bo_handle_map\<close>: the import in
  \<open>validate_handle\<close>, the register, the creation and the allocation all leave the map as
  it was.
\<close>

lemma validate_handle_keeps_map:
  "validate_handle hp drm s = Some (r, s') \<Longrightarrow> drm_bo_handle_map s' = drm_bo_handle_map s"
  by (auto simp: validate_handle_def split: option.splits if_splits)

lemma gralloc_drm_handle_register_keeps_map:
  "gralloc_drm_handle_register hp drm s = Some (r, s') \<Longrightarrow>
     drm_bo_handle_map s' = drm_bo_handle_map s"
  using validate_handle_keeps_map [of hp drm s]
  by (auto simp: gralloc_drm_handle_register_def split: option.splits)

lemma gralloc_drm_bo_decref_keeps_map:
  "gralloc_drm_bo_decref p s = Some s' \<Longrightarrow> drm_bo_handle_map s' = drm_bo_handle_map s"
  by (auto simp: gralloc_drm_bo_decref_def gralloc_drm_bo_destroy_def Let_def
      split: option.splits if_splits)

lemma gralloc_drm_bo_create_keeps_map:
  "gralloc_drm_bo_create wd drm w0 h0 format usage s = Some (r, s') \<Longrightarrow>
     drm_bo_handle_map s' = drm_bo_handle_map s"
  by (auto simp: gralloc_drm_bo_create_def split: option.splits)

lemma drm_mod_alloc_gpu0_keeps_map:
  assumes "drm_mod_alloc_gpu0 wd w0 h0 format usage s = Some (r, s')"
  shows "drm_bo_handle_map s' = drm_bo_handle_map s"
proof (cases "gralloc_drm_get_bpp wd format = 0")
  case True
  then show ?thesis
    using assms by (simp add: drm_mod_alloc_gpu0_def)
next
  case False
  then obtain bo s1 where c: "gralloc_drm_bo_create wd (dmod_drm s) w0 h0 format usage s = Some (bo, s1)"
    using assms by (auto simp: drm_mod_alloc_gpu0_def Let_def split: option.splits)
  have m1: "drm_bo_handle_map s1 = drm_bo_handle_map s"
    using c gralloc_drm_bo_create_keeps_map by blast
  show ?thesis
    using assms False c m1
    by (auto simp: drm_mod_alloc_gpu0_def Let_def gralloc_drm_bo_get_handle_def
        split: option.splits if_splits dest: gralloc_drm_bo_decref_keeps_map)
qed

lemma usage_subset_absorb:
  fixes l u :: "32 word"
  assumes "(l AND u) = u"
  shows "l OR (u OR l) = l"
  by (metis assms word_ao_absorbs(2) word_bw_comms(1) word_bw_comms(2) word_bw_same(2))





lemma register_found:
  assumes "drm_bo_handle_map s hp = Some (Some p)" and "bos s p = Some b"
  shows "gralloc_drm_handle_register hp drm s =
           Some (0, s\<lparr>bos := (bos s)(p \<mapsto> b\<lparr>refcount := refcount b + 1\<rparr>)\<rparr>)"
  using assms by (simp add: gralloc_drm_handle_register_def validate_handle_def)

lemma unregister_found:
  assumes "drm_bo_handle_map s hp = Some (Some p)" and "bos s p = Some b"
    and "(if imported b then 2 else 1) < refcount b"
  shows "gralloc_drm_handle_unregister hp s =
           Some (0, s\<lparr>bos := (bos s)(p \<mapsto>
                      b\<lparr>refcount := refcount b - (if imported b then 2 else 1)\<rparr>)\<rparr>)"
  using assms
  by (auto simp: gralloc_drm_handle_unregister_def validate_handle_def gralloc_drm_bo_decref_def
        Let_def)

lemma unregister_last_imported:
  assumes "drm_bo_handle_map s hp = Some (Some p)" and "bos s p = Some b"
    and "imported b" and "refcount b = 2"
  shows "gralloc_drm_handle_unregister hp s =
           Some (0, s\<lparr>bos := (bos s)(p := None), events := events s @ [EvRmFb p, EvFree p]\<rparr>)"
  using assms
  by (auto simp: gralloc_drm_handle_unregister_def validate_handle_def gralloc_drm_bo_decref_def
        gralloc_drm_bo_destroy_def Let_def)

text \<open>
  The last unregister of a bo that was not imported destroys it in the first
  \<open>gralloc_drm_bo_decref\<close>; the read of \<open>bo->imported\<close> that follows is undefined.
\<close>

lemma unregister_last_local_undefined:
  assumes "drm_bo_handle_map s hp = Some (Some p)" and "bos s p = Some b"
    and "\<not> imported b" and "refcount b = 1"
  shows "gralloc_drm_handle_unregister hp s = None"
  using assms
  by (auto simp: gralloc_drm_handle_unregister_def validate_handle_def gralloc_drm_bo_decref_def
        gralloc_drm_bo_destroy_def Let_def)

lemma register_import:
  assumes "drm_bo_handle_map s hp = None" and "hmem s hp = Some handle"
    and "h_name handle \<noteq> 0 \<or> 0 \<le> h_prime_fd handle"
    and "drv_alloc (drv d) (events s) handle = Some (f, handle')"
  shows "gralloc_drm_handle_register hp (Some d) s =
           Some (0, s\<lparr>bos := (bos s)(next_bo s \<mapsto>
                         \<lparr>bo_drm = d, bo_handle = hp, imported = True,
                          fb_id = drv_fb_id f, lock_count = drv_lock_count f,
                          locked_for = drv_locked_for f, refcount = 2\<rparr>),
                       hmem := (hmem s)(hp \<mapsto> handle'),
                       next_bo := Suc (next_bo s),
                       events := events s @ [EvAlloc hp]\<rparr>)"
  using assms
  by (auto simp: gralloc_drm_handle_register_def validate_handle_def)

lemma refcount_update_twice:
  "s\<lparr>bos := (bos s)(p \<mapsto> b\<lparr>refcount := r1\<rparr>)\<rparr>
     \<lparr>bos := (bos (s\<lparr>bos := (bos s)(p \<mapsto> b\<lparr>refcount := r1\<rparr>)\<rparr>))
                (p \<mapsto> b\<lparr>refcount := r1\<rparr>\<lparr>refcount := r2\<rparr>)\<rparr>
   = s\<lparr>bos := (bos s)(p \<mapsto> b\<lparr>refcount := r2\<rparr>)\<rparr>"
  by simp

text \<open>
  While the reference count stays above 0, a sequence of calls on a handle that the map
  knows changes nothing but the reference count of its bo.
\<close>

lemma run_ops_found:
  assumes "drm_bo_handle_map s hp = Some (Some p)" and "bos s p = Some b"
    and "k = (if imported b then 2 else 1)"
    and "stays_live k (refcount b) ops"
  shows "run_ops hp drm ops s =
           Some (replicate (length ops) 0,
                 s\<lparr>bos := (bos s)(p \<mapsto> b\<lparr>refcount := refcount b + int (registers ops)
                     - k * int (unregisters ops)\<rparr>)\<rparr>)"
  using assms
proof (induction ops arbitrary: s b)
  case Nil
  then show ?case by (simp add: map_upd_triv)
next
  case (Cons op ops)
  show ?case
  proof (cases op)
    case Register
    let ?b1 = "b\<lparr>refcount := refcount b + 1\<rparr>"
    let ?s1 = "s\<lparr>bos := (bos s)(p \<mapsto> ?b1)\<rparr>"
    have step: "gralloc_drm_handle_register hp drm s = Some (0, ?s1)"
      using Cons.prems register_found by blast
    have live: "stays_live k (refcount ?b1) ops"
      using Cons.prems(4) Register by simp
    have cnt: "refcount ?b1 + int (registers ops) - k * int (unregisters ops)
               = refcount b + int (registers (op # ops)) - k * int (unregisters (op # ops))"
      using Register by simp
    have r1: "drm_bo_handle_map ?s1 hp = Some (Some p)"
      using Cons.prems(1) by simp
    have r2: "bos ?s1 p = Some ?b1"
      by simp
    have r3: "k = (if imported ?b1 then 2 else 1)"
      using Cons.prems(3) by simp
    have "run_ops hp drm ops ?s1 =
            Some (replicate (length ops) 0,
                  s\<lparr>bos := (bos s)(p \<mapsto> b\<lparr>refcount := refcount ?b1
                      + int (registers ops) - k * int (unregisters ops)\<rparr>)\<rparr>)"
      using Cons.IH [OF r1 r2 r3 live] by (simp only: refcount_update_twice)
    then have ih: "run_ops hp drm ops ?s1 =
            Some (replicate (length ops) 0,
                  s\<lparr>bos := (bos s)(p \<mapsto> b\<lparr>refcount := refcount b
                      + int (registers (op # ops)) - k * int (unregisters (op # ops))\<rparr>)\<rparr>)"
      unfolding cnt .
    have e: "run_ops hp drm (op # ops) s =
               (case run_ops hp drm ops ?s1 of
                  None \<Rightarrow> None
                | Some (rs, s2) \<Rightarrow> Some (0 # rs, s2))"
      unfolding Register using step by simp
    show ?thesis
      unfolding e ih by (simp only: option.case prod.case length_Cons replicate_Suc)
  next
    case Unregister
    let ?b1 = "b\<lparr>refcount := refcount b - k\<rparr>"
    let ?s1 = "s\<lparr>bos := (bos s)(p \<mapsto> ?b1)\<rparr>"
    have big: "k < refcount b"
      using Cons.prems(4) Unregister by simp
    have step: "gralloc_drm_handle_unregister hp s = Some (0, ?s1)"
      using Cons.prems(1,2,3) big unregister_found by simp
    have live: "stays_live k (refcount ?b1) ops"
      using Cons.prems(4) Unregister by simp
    have cnt: "refcount ?b1 + int (registers ops) - k * int (unregisters ops)
               = refcount b + int (registers (op # ops)) - k * int (unregisters (op # ops))"
      using Unregister by (simp add: algebra_simps)
    have r1: "drm_bo_handle_map ?s1 hp = Some (Some p)"
      using Cons.prems(1) by simp
    have r2: "bos ?s1 p = Some ?b1"
      by simp
    have r3: "k = (if imported ?b1 then 2 else 1)"
      using Cons.prems(3) by simp
    have "run_ops hp drm ops ?s1 =
            Some (replicate (length ops) 0,
                  s\<lparr>bos := (bos s)(p \<mapsto> b\<lparr>refcount := refcount ?b1
                      + int (registers ops) - k * int (unregisters ops)\<rparr>)\<rparr>)"
      using Cons.IH [OF r1 r2 r3 live] by (simp only: refcount_update_twice)
    then have ih: "run_ops hp drm ops ?s1 =
            Some (replicate (length ops) 0,
                  s\<lparr>bos := (bos s)(p \<mapsto> b\<lparr>refcount := refcount b
                      + int (registers (op # ops)) - k * int (unregisters (op # ops))\<rparr>)\<rparr>)"
      unfolding cnt .
    have e: "run_ops hp drm (op # ops) s =
               (case run_ops hp drm ops ?s1 of
                  None \<Rightarrow> None
                | Some (rs, s2) \<Rightarrow> Some (0 # rs, s2))"
      unfolding Unregister using step by simp
    show ?thesis
      unfolding e ih by (simp only: option.case prod.case length_Cons replicate_Suc)
  qed
qed

lemma run_ops_append:
  "run_ops hp drm (xs @ ys) s =
     (case run_ops hp drm xs s of
        None \<Rightarrow> None
      | Some (rs, s1) \<Rightarrow>
          (case run_ops hp drm ys s1 of
             None \<Rightarrow> None
           | Some (rs', s2) \<Rightarrow> Some (rs @ rs', s2)))"
proof (induction xs arbitrary: s)
  case Nil
  show ?case by (simp split: option.splits)
next
  case (Cons op xs)
  show ?case
    by (cases op) (simp_all add: Cons.IH split: option.splits)
qed

lemma run_ops_last_unregister:
  assumes "drm_bo_handle_map s hp = Some (Some p)" and "bos s p = Some b"
    and "imported b" and "stays_live 2 (refcount b) ops"
    and "refcount b + int (registers ops) - 2 * int (unregisters ops) = 2"
  shows "run_ops hp drm (ops @ [Unregister]) s =
           Some (replicate (Suc (length ops)) 0,
                 s\<lparr>bos := (bos s)(p := None), events := events s @ [EvRmFb p, EvFree p]\<rparr>)"
proof -
  let ?b1 = "b\<lparr>refcount := 2\<rparr>"
  let ?s1 = "s\<lparr>bos := (bos s)(p \<mapsto> ?b1)\<rparr>"
  have k: "(2::int) = (if imported b then 2 else 1)"
    using assms(3) by simp
  have pre: "run_ops hp drm ops s = Some (replicate (length ops) 0, ?s1)"
    using run_ops_found [OF assms(1,2) k assms(4), of drm] assms(5) by simp
  have r1: "drm_bo_handle_map ?s1 hp = Some (Some p)"
    using assms(1) by simp
  have r2: "bos ?s1 p = Some ?b1"
    by simp
  have last: "gralloc_drm_handle_unregister hp ?s1 =
                Some (0, ?s1\<lparr>bos := (bos ?s1)(p := None),
                            events := events ?s1 @ [EvRmFb p, EvFree p]\<rparr>)"
    using unregister_last_imported [OF r1 r2] assms(3) by simp
  have rep: "replicate (length ops) (0::int) @ [0] = replicate (Suc (length ops)) 0"
    by (simp add: replicate_append_same)
  show ?thesis
    unfolding run_ops_append pre using last rep by simp
qed

section \<open>The handle registry and the reference count\<close>

text \<open>
  Claim C1, evaluated on the code. A process with a ready device and an empty map
  registers the well-formed handle 7 twice. Both calls return 0, both call the backend's
  \<open>alloc\<close>, and afterwards two bos for the handle 7 are live (at the addresses 0 and 1),
  each with \<open>refcount = 2\<close>, while the map still has no entry for the handle: the second
  call finds nothing to increment and imports again.
\<close>

theorem register_twice_imports_twice:
  "(run_ops 7 (dmod_drm ex_init) [Register, Register] ex_init
      \<bind> (\<lambda>(rets, s'). Some (rets, events s', drm_bo_handle_map s' 7,
             map_option bo_handle (bos s' 0), map_option refcount (bos s' 0),
             map_option bo_handle (bos s' 1), map_option refcount (bos s' 1))))
   = Some ([0, 0], [EvAlloc 7, EvAlloc 7], None, Some 7, Some 2, Some 7, Some 2)"
  by (simp add: gralloc_drm_handle_register_def validate_handle_def ex_init_def ex_handle_def
        ex_drv_def)

text \<open>
  Claim C2, as the code has it. An unregister of a handle that the map does not know
  returns \<open>-EINVAL\<close> and changes nothing. For a handle that the map sends to a live bo,
  every register adds 1 to the reference count and every unregister takes 1 from it for
  a bo that was not imported and 2 for an imported bo; as long as the count stays above
  0, every call returns 0 and nothing else changes (in particular no backend call is
  made). When such a sequence leaves an imported bo with the count 2, one more
  unregister destroys it, with exactly one call of the backend's \<open>free\<close>. A register of
  a handle that the map does not know imports a bo and leaves it with the count 2.
\<close>

theorem register_unregister_refcount:
  "(drm_bo_handle_map s hp = None \<longrightarrow>
      gralloc_drm_handle_unregister hp s = Some (- EINVAL, s)) \<and>
   (drm_bo_handle_map s hp = Some (Some p) \<and> bos s p = Some b \<and>
    stays_live (if imported b then 2 else 1) (refcount b) ops \<longrightarrow>
      run_ops hp drm ops s =
        Some (replicate (length ops) 0,
              s\<lparr>bos := (bos s)(p \<mapsto> b\<lparr>refcount := refcount b + int (registers ops)
                  - (if imported b then 2 else 1) * int (unregisters ops)\<rparr>)\<rparr>)) \<and>
   (drm_bo_handle_map s hp = Some (Some p) \<and> bos s p = Some b \<and> imported b \<and>
    stays_live 2 (refcount b) ops \<and>
    refcount b + int (registers ops) - 2 * int (unregisters ops) = 2 \<longrightarrow>
      run_ops hp drm (ops @ [Unregister]) s =
        Some (replicate (Suc (length ops)) 0,
              s\<lparr>bos := (bos s)(p := None), events := events s @ [EvRmFb p, EvFree p]\<rparr>)) \<and>
   (drm_bo_handle_map s hp = None \<and> hmem s hp = Some handle \<and>
    (0 \<le> h_prime_fd handle \<or> h_name handle \<noteq> 0) \<and>
    drv_alloc (drv d) (events s) handle = Some (f, handle') \<longrightarrow>
      (\<exists>s'. gralloc_drm_handle_register hp (Some d) s = Some (0, s') \<and>
            map_option refcount (bos s' (next_bo s)) = Some 2 \<and>
            map_option imported (bos s' (next_bo s)) = Some True \<and>
            events s' = events s @ [EvAlloc hp]))"
proof -
  have a: "drm_bo_handle_map s hp = None \<Longrightarrow>
      gralloc_drm_handle_unregister hp s = Some (- EINVAL, s)"
    by (simp add: gralloc_drm_handle_unregister_def validate_handle_check_only)
  have d: "\<exists>s'. gralloc_drm_handle_register hp (Some d) s = Some (0, s') \<and>
            map_option refcount (bos s' (next_bo s)) = Some 2 \<and>
            map_option imported (bos s' (next_bo s)) = Some True \<and>
            events s' = events s @ [EvAlloc hp]"
    if "drm_bo_handle_map s hp = None" and "hmem s hp = Some handle"
      and "0 \<le> h_prime_fd handle \<or> h_name handle \<noteq> 0"
      and "drv_alloc (drv d) (events s) handle = Some (f, handle')"
  proof -
    have "h_name handle \<noteq> 0 \<or> 0 \<le> h_prime_fd handle"
      using that(3) by blast
    from register_import [OF that(1,2) this that(4)] show ?thesis
      by simp
  qed
  show ?thesis
    using a d run_ops_found [of s hp p b _ ops drm, OF _ _ refl]
      run_ops_last_unregister [of s hp p b ops drm]
    by blast
qed

text \<open>
  An unknown handle; an imported bo with the count 2 under register, register,
  unregister (2, 3, 4, 2) and then one more unregister; a bo that was not imported under
  register, unregister (1, 2, 1); and the first register of the handle 7.
\<close>

theorem register_unregister_refcount_witness:
  "gralloc_drm_handle_unregister 7 ex_init = Some (- EINVAL, ex_init) \<and>
   run_ops 7 None [Register, Register, Unregister]
       (ex_state (ex_handle 0x30 1) (ex_bo ex_drv 0 0 2 True)) =
     Some ([0, 0, 0], ex_state (ex_handle 0x30 1) (ex_bo ex_drv 0 0 2 True)) \<and>
   run_ops 7 None [Register, Unregister]
       (ex_state (ex_handle 0x30 1) (ex_bo ex_drv 0 0 1 False)) =
     Some ([0, 0], ex_state (ex_handle 0x30 1) (ex_bo ex_drv 0 0 1 False)) \<and>
   run_ops 7 None ([Register, Register, Unregister] @ [Unregister])
       (ex_state (ex_handle 0x30 1) (ex_bo ex_drv 0 0 2 True)) =
     Some ([0, 0, 0, 0],
           (ex_state (ex_handle 0x30 1) (ex_bo ex_drv 0 0 2 True))
             \<lparr>bos := Map.empty, events := [EvRmFb 0, EvFree 0]\<rparr>) \<and>
   (\<exists>s'. gralloc_drm_handle_register 7 (dmod_drm ex_init) ex_init = Some (0, s') \<and>
         map_option refcount (bos s' 0) = Some 2 \<and>
         map_option imported (bos s' 0) = Some True \<and>
         events s' = [EvAlloc 7])"
proof -
  let ?s = "ex_state (ex_handle 0x30 1) (ex_bo ex_drv 0 0 2 True)"
  let ?l = "ex_state (ex_handle 0x30 1) (ex_bo ex_drv 0 0 1 False)"
  have u: "gralloc_drm_handle_unregister 7 ex_init = Some (- EINVAL, ex_init)"
    using register_unregister_refcount [of ex_init 7] by (simp add: ex_init_def)
  have q: "run_ops 7 None [Register, Register, Unregister] ?s = Some ([0, 0, 0], ?s)"
    using register_unregister_refcount [of ?s 7 0 "ex_bo ex_drv 0 0 2 True" "[Register, Register, Unregister]" None]
    by (simp add: ex_state_def ex_bo_def numeral_3_eq_3)
  have l: "run_ops 7 None [Register, Unregister] ?l = Some ([0, 0], ?l)"
    using register_unregister_refcount [of ?l 7 0 "ex_bo ex_drv 0 0 1 False" "[Register, Unregister]" None]
    by (simp add: ex_state_def ex_bo_def)
  have x: "run_ops 7 None ([Register, Register, Unregister] @ [Unregister]) ?s =
     Some ([0, 0, 0, 0], ?s\<lparr>bos := Map.empty, events := [EvRmFb 0, EvFree 0]\<rparr>)"
    using register_unregister_refcount [of ?s 7 0 "ex_bo ex_drv 0 0 2 True" "[Register, Register, Unregister]" None]
    by (simp add: ex_state_def ex_bo_def numeral_3_eq_3)
  have i: "\<exists>s'. gralloc_drm_handle_register 7 (dmod_drm ex_init) ex_init = Some (0, s') \<and>
         map_option refcount (bos s' 0) = Some 2 \<and>
         map_option imported (bos s' 0) = Some True \<and>
         events s' = [EvAlloc 7]"
    using register_unregister_refcount [of ex_init 7 _ _ _ _ "ex_handle 0x30 1" "\<lparr>fd = 3, drv = ex_drv\<rparr>"
                     "\<lparr>drv_fb_id = 0, drv_lock_count = 0, drv_locked_for = 0\<rparr>"
                     "(ex_handle 0x30 1)\<lparr>h_stride := 256\<rparr>"]
    by (simp add: ex_init_def ex_handle_def ex_drv_def)
  show ?thesis
    using u q l x i by blast
qed


text \<open>
  Claim C2 as stated fails. The first register of the handle 7 finds no entry, so no
  register call has found an existing entry and no unregister call was made; the
  formula gives the count 1, the bo has the count 2.
\<close>

theorem first_register_refcount_two:
  "drm_bo_handle_map ex_init 7 = None \<and>
   (run_ops 7 (dmod_drm ex_init) [Register] ex_init
      \<bind> (\<lambda>(rets, s'). Some (rets, map_option refcount (bos s' 0))))
     = Some ([0], Some 2) \<and>
   (2 :: int) \<noteq> spec_refcount 0 0"
  by (simp add: gralloc_drm_handle_register_def gralloc_drm_handle_unregister_def
        validate_handle_def ex_init_def ex_handle_def ex_drv_def spec_refcount_def)


section \<open>The lock and unlock engine\<close>

text \<open>
  Claim C3, as the code has it. The first check of \<open>gralloc_drm_bo_lock\<close> rejects a request
  with \<open>-EINVAL\<close>, changing nothing and calling nothing, exactly when the requested usage is
  not a subset of the handle's declared usage and the declared usage has no bit in common
  with \<open>SW_READ_OFTEN | HW_FB | HW_TEXTURE | HW_VIDEO_ENCODER\<close>. When the declared usage has
  such a bit (or the requested usage is a subset of it), any requested usage passes the
  check, for a bo that is locked as for one that is not: unless the second check refuses
  it (the bo is locked and the usage is not within \<open>locked_for\<close>), the return code is that
  of the backend's \<open>map\<close>, or 0 when no mapping is asked for.
\<close>

theorem lock_usage_gate:
  assumes "bos s p = Some b" and "hmem s (bo_handle b) = Some handle"
  shows "((h_usage handle AND usage) \<noteq> usage \<and>
          h_usage handle AND (GRALLOC_USAGE_SW_READ_OFTEN OR GRALLOC_USAGE_HW_FB OR
                              GRALLOC_USAGE_HW_TEXTURE OR GRALLOC_USAGE_HW_VIDEO_ENCODER) = 0 \<longrightarrow>
            gralloc_drm_bo_lock p usage x0 y0 w0 h0 s = Some ((- EINVAL, None), s)) \<and>
         (((h_usage handle AND usage) = usage \<or>
           h_usage handle AND (GRALLOC_USAGE_SW_READ_OFTEN OR GRALLOC_USAGE_HW_FB OR
                               GRALLOC_USAGE_HW_TEXTURE OR GRALLOC_USAGE_HW_VIDEO_ENCODER) \<noteq> 0) \<and>
          (lock_count b = 0 \<or> (locked_for b AND usage) = usage) \<longrightarrow>
            (\<exists>a s'. gralloc_drm_bo_lock p usage x0 y0 w0 h0 s =
               Some ((if (usage OR locked_for b) AND
                          (GRALLOC_USAGE_SW_WRITE_MASK OR GRALLOC_USAGE_SW_READ_MASK) \<noteq> 0
                      then fst (drv_map (drv (bo_drm b)) (events s) p x0 y0 w0 h0
                             ((usage OR locked_for b) AND GRALLOC_USAGE_SW_WRITE_MASK \<noteq> 0))
                      else 0, a), s')))"
  using assms
  by (auto simp: gralloc_drm_bo_lock_def Let_def prod_eq_iff)

text \<open>
  A bo declared \<open>SW_WRITE_OFTEN\<close> (0x30) refuses a lock for \<open>SW_READ_OFTEN\<close> (0x3); a bo
  declared \<open>HW_TEXTURE\<close> (0x100) accepts a lock for \<open>HW_RENDER\<close> (0x200); a bo declared
  \<open>HW_FB\<close> (0x1000) that is locked for 0x33 accepts a further lock for 0x30.
\<close>

theorem lock_usage_gate_witness:
  "gralloc_drm_bo_lock 0 0x3 0 0 64 64 (ex_state (ex_handle 0x30 1) (ex_bo ex_drv 0 0 1 False))
     = Some ((- EINVAL, None), ex_state (ex_handle 0x30 1) (ex_bo ex_drv 0 0 1 False)) \<and>
   (\<exists>a s'. gralloc_drm_bo_lock 0 0x200 0 0 64 64 (ex_state (ex_handle 0x100 1) (ex_bo ex_drv 0 0 1 False))
     = Some ((0, a), s')) \<and>
   (\<exists>a s'. gralloc_drm_bo_lock 0 0x30 0 0 64 64
              (ex_state (ex_handle 0x1000 1) (ex_bo ex_drv 1 0x33 1 False))
     = Some ((0, a), s'))"
  using lock_usage_gate [of "ex_state (ex_handle 0x30 1) (ex_bo ex_drv 0 0 1 False)" 0
                            "ex_bo ex_drv 0 0 1 False" "ex_handle 0x30 1" "0x3" 0 0 64 64]
        lock_usage_gate [of "ex_state (ex_handle 0x100 1) (ex_bo ex_drv 0 0 1 False)" 0
                            "ex_bo ex_drv 0 0 1 False" "ex_handle 0x100 1" "0x200" 0 0 64 64]
        lock_usage_gate [of "ex_state (ex_handle 0x1000 1) (ex_bo ex_drv 1 0x33 1 False)" 0
                            "ex_bo ex_drv 1 0x33 1 False" "ex_handle 0x1000 1" "0x30" 0 0 64 64]
  by (simp add: ex_state_def ex_handle_def ex_bo_def ex_drv_def usage_defs)

text \<open>
  Claim C3 as stated fails. A bo declared \<open>SW_READ_RARELY\<close> (0x2) is asked for
  \<open>SW_WRITE_RARELY\<close> (0x20): the request is not a subset of the declared usage, and the
  declared usage contains none of the four flags (\<open>SW_READ_OFTEN\<close> is the two-bit value
  0x3), yet the lock succeeds, because 0x2 shares a bit with 0x3.
\<close>

theorem lock_read_rarely_exempt:
  "(h_usage (ex_handle 0x2 1) AND 0x20) \<noteq> (0x20 :: 32 word) \<and>
   (h_usage (ex_handle 0x2 1) AND GRALLOC_USAGE_SW_READ_OFTEN) \<noteq> GRALLOC_USAGE_SW_READ_OFTEN \<and>
   (h_usage (ex_handle 0x2 1) AND GRALLOC_USAGE_HW_FB) \<noteq> GRALLOC_USAGE_HW_FB \<and>
   (h_usage (ex_handle 0x2 1) AND GRALLOC_USAGE_HW_TEXTURE) \<noteq> GRALLOC_USAGE_HW_TEXTURE \<and>
   (h_usage (ex_handle 0x2 1) AND GRALLOC_USAGE_HW_VIDEO_ENCODER) \<noteq> GRALLOC_USAGE_HW_VIDEO_ENCODER \<and>
   map_option fst (gralloc_drm_bo_lock 0 0x20 0 0 64 64
                     (ex_state (ex_handle 0x2 1) (ex_bo ex_drv 0 0 1 False)))
     = Some (0, Some 4096)"
  by (simp add: gralloc_drm_bo_lock_def ex_state_def ex_handle_def ex_bo_def ex_drv_def Let_def
        usage_defs)

text \<open>
  Claim C4. For a bo with \<open>lock_count > 0\<close>, a lock whose usage is not a subset of
  \<open>locked_for\<close> returns \<open>-EINVAL\<close> and changes nothing, so a lock that succeeds there has a
  usage within \<open>locked_for\<close>; and every lock that returns 0 leaves the bo with \<open>lock_count\<close>
  one higher and the requested usage ORed into \<open>locked_for\<close>.
\<close>

theorem lock_reentrant:
  assumes "bos s p = Some b" and "hmem s (bo_handle b) = Some handle"
  shows "(0 < lock_count b \<and> (locked_for b AND usage) \<noteq> usage \<longrightarrow>
            gralloc_drm_bo_lock p usage x0 y0 w0 h0 s = Some ((- EINVAL, None), s)) \<and>
         (\<forall>a s'. gralloc_drm_bo_lock p usage x0 y0 w0 h0 s = Some ((0, a), s') \<longrightarrow>
            (0 < lock_count b \<longrightarrow> (locked_for b AND usage) = usage) \<and>
            bos s' = (bos s)(p \<mapsto> b\<lparr>lock_count := lock_count b + 1,
                                      locked_for := locked_for b OR usage\<rparr>))"
  using assms
  by (auto simp: gralloc_drm_bo_lock_def EINVAL_def Let_def word_bw_assocs word_bw_lcs
        word_bw_comms split: if_splits)

text \<open>
  A bo locked once for \<open>SW_WRITE_OFTEN\<close> (0x30) refuses a second lock for 0x3 and accepts
  one for 0x10, which takes \<open>lock_count\<close> from 1 to 2.
\<close>

theorem lock_reentrant_witness:
  "gralloc_drm_bo_lock 0 0x3 0 0 64 64 (ex_state (ex_handle 0x33 1) (ex_bo ex_drv 1 0x30 1 False))
     = Some ((- EINVAL, None), ex_state (ex_handle 0x33 1) (ex_bo ex_drv 1 0x30 1 False)) \<and>
   (\<exists>a s'. gralloc_drm_bo_lock 0 0x10 0 0 64 64
              (ex_state (ex_handle 0x33 1) (ex_bo ex_drv 1 0x30 1 False)) = Some ((0, a), s') \<and>
            bos s' = [0 \<mapsto> ex_bo ex_drv 2 0x30 1 False])"
proof -
  let ?s = "ex_state (ex_handle 0x33 1) (ex_bo ex_drv 1 0x30 1 False)"
  have b: "bos ?s 0 = Some (ex_bo ex_drv 1 0x30 1 False)"
    and h: "hmem ?s (bo_handle (ex_bo ex_drv 1 0x30 1 False)) = Some (ex_handle 0x33 1)"
    by (simp_all add: ex_state_def ex_bo_def)
  have ok: "\<exists>a s'. gralloc_drm_bo_lock 0 0x10 0 0 64 64 ?s = Some ((0, a), s')"
    by (simp add: gralloc_drm_bo_lock_def ex_defs usage_defs Let_def)
  have fail: "gralloc_drm_bo_lock 0 0x3 0 0 64 64 ?s = Some ((- EINVAL, None), ?s)"
    using lock_reentrant [OF b h, of "0x3" 0 0 64 64] by (simp add: ex_bo_def)
  have upd: "bos s' = [0 \<mapsto> ex_bo ex_drv 2 0x30 1 False]"
    if "gralloc_drm_bo_lock 0 0x10 0 0 64 64 ?s = Some ((0, a), s')" for a s'
    using lock_reentrant [OF b h, of "0x10" 0 0 64 64] that by (simp add: ex_bo_def ex_state_def)
  show ?thesis
    using ok fail upd by blast
qed

text \<open>
  Claim C5, as the code has it. \<open>drm_mod_unlock\<close> of a handle that the map does not know
  changes nothing and returns \<open>-EINVAL\<close>; \<open>drm_mod_unlock\<close> of a known bo with
  \<open>lock_count = 0\<close> changes nothing and returns 0, and \<open>gralloc_drm_bo_unlock\<close> of such a bo
  changes nothing.
\<close>

theorem unlock_not_locked:
  "(drm_bo_handle_map s hp = None \<longrightarrow> drm_mod_unlock hp s = Some (- EINVAL, s)) \<and>
   (drm_bo_handle_map s hp = Some (Some p) \<and> bos s p = Some b \<and> lock_count b = 0 \<longrightarrow>
      drm_mod_unlock hp s = Some (0, s)) \<and>
   (bos s p = Some b \<and> lock_count b = 0 \<longrightarrow> gralloc_drm_bo_unlock p s = Some s)"
  by (auto simp: drm_mod_unlock_def gralloc_drm_bo_from_handle_def validate_handle_def
        gralloc_drm_bo_unlock_def Let_def)

theorem unlock_not_locked_witness:
  "drm_mod_unlock 9 (ex_state (ex_handle 0x30 1) (ex_bo ex_drv 0 0 1 False))
      = Some (- EINVAL, ex_state (ex_handle 0x30 1) (ex_bo ex_drv 0 0 1 False)) \<and>
   drm_mod_unlock 7 (ex_state (ex_handle 0x30 1) (ex_bo ex_drv 0 0 1 False))
      = Some (0, ex_state (ex_handle 0x30 1) (ex_bo ex_drv 0 0 1 False)) \<and>
   gralloc_drm_bo_unlock 0 (ex_state (ex_handle 0x30 1) (ex_bo ex_drv 0 0 1 False))
      = Some (ex_state (ex_handle 0x30 1) (ex_bo ex_drv 0 0 1 False))"
  using unlock_not_locked [of "ex_state (ex_handle 0x30 1) (ex_bo ex_drv 0 0 1 False)" 9 0
                              "ex_bo ex_drv 0 0 1 False"]
        unlock_not_locked [of "ex_state (ex_handle 0x30 1) (ex_bo ex_drv 0 0 1 False)" 7 0
                              "ex_bo ex_drv 0 0 1 False"]
  by (simp add: ex_state_def ex_bo_def)

text \<open>
  Claim C5 as stated fails for the unknown handle: \<open>drm_mod_unlock\<close> of the handle 7, for
  which the process has no bo, returns \<open>-EINVAL\<close>, which is not success.
\<close>

theorem unlock_unknown_handle_einval:
  "drm_mod_unlock 7 ex_init = Some (- EINVAL, ex_init) \<and> - EINVAL \<noteq> 0"
  by (simp add: drm_mod_unlock_def gralloc_drm_bo_from_handle_def validate_handle_def
        ex_init_def EINVAL_def)




text \<open>
  Claim C10. When the usage passes both checks of \<open>gralloc_drm_bo_lock\<close>, a mapping is
  asked for and the backend's \<open>map\<close> returns the error \<open>err\<close>, the lock returns \<open>err\<close>; the
  bo structs, and with them \<open>lock_count\<close> and \<open>locked_for\<close> of the bo, are as before the
  call, and the call to \<open>map\<close> is the only call made.
\<close>

theorem lock_map_error:
  assumes "bos s p = Some b" and "hmem s (bo_handle b) = Some handle"
    and "(h_usage handle AND usage) = usage \<or>
         h_usage handle AND (GRALLOC_USAGE_SW_READ_OFTEN OR GRALLOC_USAGE_HW_FB OR
                             GRALLOC_USAGE_HW_TEXTURE OR GRALLOC_USAGE_HW_VIDEO_ENCODER) \<noteq> 0"
    and "lock_count b = 0 \<or> (locked_for b AND usage) = usage"
    and "(usage OR locked_for b) AND (GRALLOC_USAGE_SW_WRITE_MASK OR GRALLOC_USAGE_SW_READ_MASK) \<noteq> 0"
    and "drv_map (drv (bo_drm b)) (events s) p x0 y0 w0 h0
           ((usage OR locked_for b) AND GRALLOC_USAGE_SW_WRITE_MASK \<noteq> 0) = (err, a)"
    and "err \<noteq> 0"
  shows "\<exists>s'. gralloc_drm_bo_lock p usage x0 y0 w0 h0 s = Some ((err, a), s') \<and>
              bos s' = bos s \<and> bos s' p = Some b \<and>
              events s' = events s @ [EvMap p x0 y0 w0 h0
                 ((usage OR locked_for b) AND GRALLOC_USAGE_SW_WRITE_MASK \<noteq> 0)]"
  using assms
  by (auto simp: gralloc_drm_bo_lock_def Let_def)

theorem lock_map_error_witness:
  "\<exists>s'. gralloc_drm_bo_lock 0 0x30 0 0 64 64
           (ex_state (ex_handle 0x33 1) (ex_bo ex_drv_nomap 0 0 1 False)) = Some ((- 12, None), s') \<and>
        bos s' = bos (ex_state (ex_handle 0x33 1) (ex_bo ex_drv_nomap 0 0 1 False)) \<and>
        bos s' 0 = Some (ex_bo ex_drv_nomap 0 0 1 False) \<and>
        events s' = [EvMap 0 0 0 64 64 True]"
  using lock_map_error [of "ex_state (ex_handle 0x33 1) (ex_bo ex_drv_nomap 0 0 1 False)" 0
                   "ex_bo ex_drv_nomap 0 0 1 False" "ex_handle 0x33 1" "0x30" 0 0 64 64 "- 12" None]
  by (simp add: ex_defs usage_defs)

text \<open>
  Claim C8, as the code has it. Take a bo with \<open>lock_count \<ge> 0\<close> and a usage that passes
  both checks of the lock, and let the backend's \<open>map\<close>, if it is called, succeed. Then the
  lock returns 0, the unlock that follows restores the bo (\<open>lock_count\<close> as before,
  \<open>locked_for\<close> as before when \<open>lock_count\<close> was above 0 and cleared when it was 0), and
  the pair makes exactly one \<open>map\<close> call and one \<open>unmap\<close> call when the requested usage
  together with the mask already accumulated in \<open>locked_for\<close> includes a software read or
  write flag, and no call at all otherwise.
\<close>

theorem lock_unlock_roundtrip:
  assumes "bos s p = Some b" and "hmem s (bo_handle b) = Some handle"
    and "0 \<le> lock_count b"
    and "(h_usage handle AND usage) = usage \<or>
         h_usage handle AND (GRALLOC_USAGE_SW_READ_OFTEN OR GRALLOC_USAGE_HW_FB OR
                             GRALLOC_USAGE_HW_TEXTURE OR GRALLOC_USAGE_HW_VIDEO_ENCODER) \<noteq> 0"
    and "lock_count b = 0 \<or> (locked_for b AND usage) = usage"
    and "(usage OR locked_for b) AND (GRALLOC_USAGE_SW_WRITE_MASK OR GRALLOC_USAGE_SW_READ_MASK) \<noteq> 0
         \<longrightarrow> fst (drv_map (drv (bo_drm b)) (events s) p x0 y0 w0 h0
                ((usage OR locked_for b) AND GRALLOC_USAGE_SW_WRITE_MASK \<noteq> 0)) = 0"
  shows "\<exists>a s1 s2.
           gralloc_drm_bo_lock p usage x0 y0 w0 h0 s = Some ((0, a), s1) \<and>
           gralloc_drm_bo_unlock p s1 = Some s2 \<and>
           bos s2 = (bos s)(p \<mapsto> b\<lparr>locked_for := (if lock_count b = 0 then 0 else locked_for b)\<rparr>) \<and>
           events s2 = events s @
             (if (usage OR locked_for b) AND
                   (GRALLOC_USAGE_SW_WRITE_MASK OR GRALLOC_USAGE_SW_READ_MASK) \<noteq> 0
              then [EvMap p x0 y0 w0 h0 ((usage OR locked_for b) AND GRALLOC_USAGE_SW_WRITE_MASK \<noteq> 0),
                    EvUnmap p]
              else [])"
proof (cases "(usage OR locked_for b) AND
                (GRALLOC_USAGE_SW_WRITE_MASK OR GRALLOC_USAGE_SW_READ_MASK) = 0")
  case True
  have m: "(locked_for b OR (usage OR locked_for b)) AND
             (GRALLOC_USAGE_SW_WRITE_MASK OR GRALLOC_USAGE_SW_READ_MASK) = 0"
    using True by (simp add: word_bw_comms word_bw_lcs word_bw_assocs)
  have l: "lock_count b \<noteq> 0 \<Longrightarrow> locked_for b OR (usage OR locked_for b) = locked_for b"
    using assms(5) usage_subset_absorb by blast
  show ?thesis
    using assms True m l
    by (auto simp: gralloc_drm_bo_lock_def gralloc_drm_bo_unlock_def Let_def)
next
  case False
  have m: "(locked_for b OR (usage OR locked_for b)) AND
             (GRALLOC_USAGE_SW_WRITE_MASK OR GRALLOC_USAGE_SW_READ_MASK) \<noteq> 0"
    using False by (simp add: word_bw_comms word_bw_lcs word_bw_assocs)
  have l: "lock_count b \<noteq> 0 \<Longrightarrow> locked_for b OR (usage OR locked_for b) = locked_for b"
    using assms(5) usage_subset_absorb by blast
  show ?thesis
    using assms False m l
    by (auto simp: gralloc_drm_bo_lock_def gralloc_drm_bo_unlock_def Let_def)
qed

text \<open>
  An unlocked bo locked for \<open>SW_WRITE_OFTEN\<close> (0x30): one \<open>map\<close>, one \<open>unmap\<close>. A bo locked
  once for \<open>HW_TEXTURE\<close> (0x100) and locked again for it: no call.
\<close>

theorem lock_unlock_roundtrip_witness:
  "(\<exists>a s1 s2.
      gralloc_drm_bo_lock 0 0x30 0 0 64 64 (ex_state (ex_handle 0x133 1) (ex_bo ex_drv 0 0 1 False))
        = Some ((0, a), s1) \<and>
      gralloc_drm_bo_unlock 0 s1 = Some s2 \<and>
      bos s2 = [0 \<mapsto> ex_bo ex_drv 0 0 1 False] \<and>
      events s2 = [EvMap 0 0 0 64 64 True, EvUnmap 0]) \<and>
   (\<exists>a s1 s2.
      gralloc_drm_bo_lock 0 0x100 0 0 64 64 (ex_state (ex_handle 0x133 1) (ex_bo ex_drv 1 0x100 1 False))
        = Some ((0, a), s1) \<and>
      gralloc_drm_bo_unlock 0 s1 = Some s2 \<and>
      bos s2 = [0 \<mapsto> ex_bo ex_drv 1 0x100 1 False] \<and>
      events s2 = [])"
  using lock_unlock_roundtrip [of "ex_state (ex_handle 0x133 1) (ex_bo ex_drv 0 0 1 False)" 0
                   "ex_bo ex_drv 0 0 1 False" "ex_handle 0x133 1" "0x30" 0 0 64 64]
        lock_unlock_roundtrip [of "ex_state (ex_handle 0x133 1) (ex_bo ex_drv 1 0x100 1 False)" 0
                   "ex_bo ex_drv 1 0x100 1 False" "ex_handle 0x133 1" "0x100" 0 0 64 64]
  by (simp add: ex_defs usage_defs)

text \<open>
  Claim C8 as stated fails for a usage that is purely hardware-side. A bo declared
  \<open>SW_READ_OFTEN | HW_TEXTURE\<close> (0x103) is locked for 0x103 and then for \<open>HW_TEXTURE\<close>
  (0x100) alone. The second usage has no software flag and passes both checks, yet the
  second lock calls \<open>map\<close> and its unlock calls \<open>unmap\<close>, because the mask accumulated by
  the first lock has a software flag.
\<close>

theorem hardware_lock_maps_when_locked_for_software:
  "(0x100 :: 32 word) AND (GRALLOC_USAGE_SW_WRITE_MASK OR GRALLOC_USAGE_SW_READ_MASK) = 0 \<and>
   (gralloc_drm_bo_lock 0 0x103 0 0 64 64 (ex_state (ex_handle 0x103 1) (ex_bo ex_drv 0 0 1 False))
      \<bind> (\<lambda>(r1, s1). gralloc_drm_bo_lock 0 0x100 0 0 64 64 s1
      \<bind> (\<lambda>(r2, s2). gralloc_drm_bo_unlock 0 s2
      \<bind> (\<lambda>s3. Some (fst r1, events s1, map_option lock_count (bos s1 0),
                      fst r2, map_option lock_count (bos s3 0), events s3)))))
    = Some (0, [EvMap 0 0 0 64 64 False], Some 1,
            0, Some 1, [EvMap 0 0 0 64 64 False, EvMap 0 0 0 64 64 False, EvUnmap 0])"
  by (simp add: gralloc_drm_bo_lock_def gralloc_drm_bo_unlock_def ex_defs usage_defs Let_def)

section \<open>The device context\<close>

text \<open>
  Claim C6, as the code has it. When \<open>gralloc_drm_create\<close> fails, \<open>drm_init\<close> returns
  \<open>-EINVAL\<close> and leaves \<open>dmod->drm\<close> NULL. No failure is remembered: the next call runs
  \<open>gralloc_drm_create\<close> again, fails again with \<open>-EINVAL\<close> if that fails again, and makes
  the device ready if it now succeeds.
\<close>

theorem drm_init_after_failure:
  assumes "dmod_drm s = None" and "gralloc_drm_create wd = None"
  shows "drm_init wd kms s = (- EINVAL, s\<lparr>events := events s @ [EvCreate]\<rparr>) \<and>
         dmod_drm (snd (drm_init wd kms s)) = None \<and>
         drm_init wd' kms' (snd (drm_init wd kms s)) =
           (case gralloc_drm_create wd' of
              None \<Rightarrow> (- EINVAL, s\<lparr>events := events s @ [EvCreate, EvCreate]\<rparr>)
            | Some d \<Rightarrow>
                (if kms' then gralloc_drm_init_kms wd' d else 0,
                 s\<lparr>dmod_drm := Some d, events := events s @ [EvCreate, EvCreate]\<rparr>))"
  using assms by (simp add: drm_init_def split: option.splits)

theorem drm_init_after_failure_witness:
  "drm_init (ex_world None) True ex_unready = (- EINVAL, ex_unready\<lparr>events := [EvCreate]\<rparr>) \<and>
   drm_init (ex_world (Some ''inteldrmfb'')) False (snd (drm_init (ex_world None) True ex_unready)) =
     (0, ex_unready\<lparr>dmod_drm := Some \<lparr>fd = 3, drv = ex_drv\<rparr>, events := [EvCreate, EvCreate]\<rparr>)"
proof -
  have h1: "dmod_drm ex_unready = None"
    by (simp add: ex_unready_def)
  have h2: "gralloc_drm_create (ex_world None) = None"
    by (simp add: gralloc_drm_create_def ex_world_def)
  have h3: "gralloc_drm_create (ex_world (Some ''inteldrmfb'')) = Some \<lparr>fd = 3, drv = ex_drv\<rparr>"
    by (simp add: gralloc_drm_create_def init_drv_from_fd_def fbdrv_map_def ex_world_def)
  have h4: "events ex_unready = []"
    by (simp add: ex_unready_def ex_init_def)
  from drm_init_after_failure [OF h1 h2, of True "ex_world (Some ''inteldrmfb'')" False]
  have a: "drm_init (ex_world None) True ex_unready =
             (- EINVAL, ex_unready\<lparr>events := events ex_unready @ [EvCreate]\<rparr>)"
    and b: "drm_init (ex_world (Some ''inteldrmfb'')) False
              (snd (drm_init (ex_world None) True ex_unready)) =
            (case gralloc_drm_create (ex_world (Some ''inteldrmfb'')) of
               None \<Rightarrow> (- EINVAL, ex_unready\<lparr>events := events ex_unready @ [EvCreate, EvCreate]\<rparr>)
             | Some d \<Rightarrow>
                 (if False then gralloc_drm_init_kms (ex_world (Some ''inteldrmfb'')) d else 0,
                  ex_unready\<lparr>dmod_drm := Some d,
                    events := events ex_unready @ [EvCreate, EvCreate]\<rparr>))"
    by blast+
  show ?thesis
    by (simp only: b) (simp add: a h3 h4)
qed

text \<open>
  Claim C6 as stated fails. The first call finds \<open>/proc/fb\<close> unreadable and fails; the
  second call, with \<open>/proc/fb\<close> readable, succeeds, so the device did not stay unready; and
  two failing calls run the creation twice.
\<close>

theorem drm_init_retries_creation:
  "fst (drm_init (ex_world None) False ex_unready) = - EINVAL \<and>
   fst (drm_init (ex_world (Some ''inteldrmfb'')) False
          (snd (drm_init (ex_world None) False ex_unready))) = 0 \<and>
   events (snd (drm_init (ex_world None) False
          (snd (drm_init (ex_world None) False ex_unready)))) = [EvCreate, EvCreate]"
  by (simp add: drm_init_def gralloc_drm_create_def init_drv_from_fd_def fbdrv_map_def
        ex_world_def ex_unready_def ex_init_def)

section \<open>Allocation\<close>

text \<open>
  Claim C9. When the format has no known size (\<open>gralloc_drm_get_bpp\<close> gives 0),
  \<open>drm_mod_alloc_gpu0\<close> returns \<open>-EINVAL\<close> for every width, height and usage, writes neither
  handle nor stride, and leaves the whole state as it was: no backend call is logged, and
  the map, the bo structs and the handles are unchanged.
\<close>

theorem alloc_unknown_format:
  "gralloc_drm_get_bpp wd format = 0 \<Longrightarrow>
     drm_mod_alloc_gpu0 wd w0 h0 format usage s = Some ((- EINVAL, None), s)"
  by (simp add: drm_mod_alloc_gpu0_def)

theorem alloc_unknown_format_witness:
  "gralloc_drm_get_bpp (ex_world None) 99 = 0 \<and>
   drm_mod_alloc_gpu0 (ex_world None) 64 64 99 0x30 ex_init = Some ((- EINVAL, None), ex_init)"
  using alloc_unknown_format [of "ex_world None" 99 64 64 "0x30" ex_init]
  by (simp add: ex_world_def)

end
